theory Spec2Isabelle
  imports Complex_Main "HOL-Library.AList"
begin

section \<open>Data model of backend/main.py\<close>

text \<open>
  The job table \<^verbatim>\<open>jobs: dict[str, dict]\<close> is an association list in insertion order
  (a Python dict keeps that order); its values are the six-key dictionaries that
  \<^verbatim>\<open>edit_video\<close> creates. The four status strings are a datatype. Python strings are
  \<open>string\<close>, one \<open>char\<close> per code point (code points below 256). Timestamps
  (\<^verbatim>\<open>time.time()\<close>) are idealised as real numbers.

  The server runs every handler and every background task as a coroutine of one event
  loop, so the statements between two suspensions of a coroutine run without any other
  task in between. \<^verbatim>\<open>process_video\<close> is suspended at one place only, inside the call of
  the AI provider; \<^verbatim>\<open>ffmpeg.run\<close> blocks the loop. Each run is modelled on its own: the
  job table and the file system change through the statements of the run only (another
  task could touch the record of a running job only by evicting it, an hour after its
  creation). Exceptions that are not subclasses of \<^verbatim>\<open>Exception\<close> (task cancellation,
  interpreter exit) and failures of \<^verbatim>\<open>print\<close> are outside the model.
\<close>

datatype status = Pending | Processing | Completed | Failed

record job =
  id_field :: string
  status :: status
  progress :: int
  output_url :: "string option"
  error :: "string option"
  created_at :: real

text \<open>
  Exceptions derived from \<^verbatim>\<open>Exception\<close>, apart from FastAPI's \<^verbatim>\<open>HTTPException\<close> which
  has a type of its own. \<open>FfmpegError s\<close> is \<^verbatim>\<open>ffmpeg.Error\<close>, with \<open>s\<close> the text that
  \<^verbatim>\<open>{e.stderr}\<close> formats to. \<open>OtherException s\<close> is any other exception, \<open>s\<close> being
  its \<^verbatim>\<open>str(e)\<close>.
\<close>

datatype exn =
    KeyError string
  | ValueError string
  | RuntimeError string
  | FfmpegError string
  | OtherException string

datatype http_exception = HTTPException nat string

text \<open>\<^verbatim>\<open>str(e)\<close>: the message for the exceptions built from one message, the \<^verbatim>\<open>repr\<close> of
  the key for a \<^verbatim>\<open>KeyError\<close> (keys here are UUID strings, which \<^verbatim>\<open>repr\<close> only quotes).\<close>

fun str_exn :: "exn \<Rightarrow> string" where
  "str_exn (KeyError k) = [CHR 0x27] @ k @ [CHR 0x27]"
| "str_exn (ValueError m) = m"
| "str_exn (RuntimeError m) = m"
| "str_exn (FfmpegError s) = ''ffmpeg error (see stderr output for detail)''"
| "str_exn (OtherException m) = m"

record format_config =
  width :: int
  height :: int
  aspect :: string

record ffmpeg_cmd =
  cmd_input :: string
  cmd_width :: int
  cmd_height :: int
  cmd_output :: string

text \<open>
  One assignment \<^verbatim>\<open>jobs[job_id][key] = value\<close>, and the effects a run leaves behind, in
  program order: the assignments to the job table, the snapshot of the table at a point
  where the coroutine is suspended and other tasks of the event loop run, the external
  calls and the lines printed.
\<close>

datatype field_write =
    Status status
  | Progress int
  | OutputUrl string
  | Error string

datatype event =
    Write string field_write
  | Yield "(string \<times> job) list"
  | Ffmpeg ffmpeg_cmd
  | OsRemove string
  | Print string

text \<open>
  The program state: the job table, the file system (path to content) and the trace of
  effects so far. The trace is only ever appended to and never read by the program.
\<close>

record state =
  jobs :: "(string \<times> job) list"
  files :: "string \<rightharpoonup> string"
  trace :: "event list"

text \<open>
  What the program does not decide: the environment variable, the outcome of the HTTP
  exchange with the AI provider (for a prompt), what the ffmpeg child process does to
  the file system and whether it fails, the errors of the file-system calls
  (\<open>None\<close>: the call succeeds), and the order in which this process iterates over the
  set \<^verbatim>\<open>ALLOWED_VIDEO_TYPES\<close> (it varies with the hash seed).
\<close>

record env =
  ollama_api_key :: "string option"
  chat_completion :: "string \<Rightarrow> exn + string"
  ffmpeg_run :: "ffmpeg_cmd \<Rightarrow> (string \<rightharpoonup> string) \<Rightarrow> exn option \<times> (string \<rightharpoonup> string)"
  open_error :: "string \<Rightarrow> exn option"
  write_error :: "string \<Rightarrow> exn option"
  remove_error :: "string \<Rightarrow> exn option"
  allowed_types_order :: "string list"

section \<open>Constants\<close>

definition MAX_FILE_SIZE :: nat where
  "MAX_FILE_SIZE = 500 * 1024 * 1024"

definition ALLOWED_VIDEO_TYPES :: "string set" where
  "ALLOWED_VIDEO_TYPES =
     {''video/mp4'', ''video/webm'', ''video/quicktime'', ''video/x-msvideo'', ''video/x-matroska''}"

definition TEMP_DIR :: string where
  "TEMP_DIR = ''/tmp/video-editor''"

definition tiktok_config :: format_config where
  "tiktok_config = \<lparr>width = 1080, height = 1920, aspect = ''9:16''\<rparr>"

definition FORMAT_CONFIGS :: "(string \<times> format_config) list" where
  "FORMAT_CONFIGS =
     [(''tiktok'', tiktok_config),
      (''youtube'', \<lparr>width = 1920, height = 1080, aspect = ''16:9''\<rparr>),
      (''square'', \<lparr>width = 1080, height = 1080, aspect = ''1:1''\<rparr>),
      (''landscape'', \<lparr>width = 1920, height = 1080, aspect = ''16:9''\<rparr>)]"

text \<open>\<^verbatim>\<open>TEMP_DIR / f"{job_id}_output.mp4"\<close> and \<^verbatim>\<open>TEMP_DIR / f"{job_id}_input.mp4"\<close>, for a
  job id that is a UUID string (no path separator).\<close>

definition output_path_of :: "string \<Rightarrow> string" where
  "output_path_of job_id = TEMP_DIR @ ''/'' @ job_id @ ''_output.mp4''"

definition input_path_of :: "string \<Rightarrow> string" where
  "input_path_of job_id = TEMP_DIR @ ''/'' @ job_id @ ''_input.mp4''"

section \<open>Statements, exceptions, try/except/finally\<close>

text \<open>
  A statement maps the state to the exception it raises, if any, and the state it leaves.
  \<open>block\<close> runs statements in order and stops at the first one that raises.
\<close>

type_synonym stmt = "state \<Rightarrow> exn option \<times> state"

definition pass :: stmt where
  "pass w = (None, w)"

definition raise :: "exn \<Rightarrow> stmt" where
  "raise e w = (Some e, w)"

fun block :: "stmt list \<Rightarrow> stmt" where
  "block [] w = (None, w)"
| "block (s # ss) w =
     (case s w of
        (Some e, w') \<Rightarrow> (Some e, w')
      | (None, w') \<Rightarrow> block ss w')"

text \<open>\<^verbatim>\<open>try: body except Exception as e: handler\<close>\<close>

definition try_except :: "stmt \<Rightarrow> (exn \<Rightarrow> stmt) \<Rightarrow> stmt" where
  "try_except body handler w =
     (case body w of
        (None, w') \<Rightarrow> (None, w')
      | (Some e, w') \<Rightarrow> handler e w')"

text \<open>\<^verbatim>\<open>try: body except ffmpeg.Error as e: handler\<close>, the handler receiving the formatted
  \<^verbatim>\<open>e.stderr\<close>; any other exception passes through.\<close>

definition try_except_ffmpeg :: "stmt \<Rightarrow> (string \<Rightarrow> stmt) \<Rightarrow> stmt" where
  "try_except_ffmpeg body handler w =
     (case body w of
        (Some (FfmpegError s), w') \<Rightarrow> handler s w'
      | r \<Rightarrow> r)"

text \<open>\<^verbatim>\<open>try: body finally: fin\<close>: the finally clause runs on every exit of the body; the
  body's exception, if any, propagates afterwards unless the clause raises itself.\<close>

definition try_finally :: "stmt \<Rightarrow> stmt \<Rightarrow> stmt" where
  "try_finally body fin w =
     (case body w of
        (r, w') \<Rightarrow>
          (case fin w' of
             (None, w'') \<Rightarrow> (r, w'')
           | (Some e, w'') \<Rightarrow> (Some e, w'')))"

definition emit :: "event \<Rightarrow> state \<Rightarrow> state" where
  "emit ev w = w\<lparr>trace := trace w @ [ev]\<rparr>"

section \<open>Job table and file system primitives\<close>

fun apply_write :: "field_write \<Rightarrow> job \<Rightarrow> job" where
  "apply_write (Status s) j = j\<lparr>status := s\<rparr>"
| "apply_write (Progress n) j = j\<lparr>progress := n\<rparr>"
| "apply_write (OutputUrl u) j = j\<lparr>output_url := Some u\<rparr>"
| "apply_write (Error m) j = j\<lparr>error := Some m\<rparr>"

text \<open>\<^verbatim>\<open>jobs[job_id][key] = value\<close>: the lookup \<^verbatim>\<open>jobs[job_id]\<close> raises \<^verbatim>\<open>KeyError\<close> when
  the job is not in the table; otherwise the job's dictionary is updated in place.\<close>

definition set_field :: "string \<Rightarrow> field_write \<Rightarrow> stmt" where
  "set_field job_id fw w =
     (case map_of (jobs w) job_id of
        None \<Rightarrow> (Some (KeyError job_id), w)
      | Some j \<Rightarrow>
          (None, emit (Write job_id fw)
                   (w\<lparr>jobs := AList.update job_id (apply_write fw j) (jobs w)\<rparr>)))"

definition path_exists :: "string \<Rightarrow> state \<Rightarrow> bool" where
  "path_exists p w = (files w p \<noteq> None)"

text \<open>\<^verbatim>\<open>os.remove(path)\<close> and \<^verbatim>\<open>Path.unlink()\<close>: \<^verbatim>\<open>FileNotFoundError\<close> for a missing path,
  the environment's error if the system refuses, else the path is gone.\<close>

definition os_remove :: "env \<Rightarrow> string \<Rightarrow> stmt" where
  "os_remove env p w =
     (let w1 = emit (OsRemove p) w in
      if files w p = None
      then (Some (OtherException (''[Errno 2] No such file or directory: '' @ [CHR 0x27] @ p @ [CHR 0x27])), w1)
      else (case remove_error env p of
              Some e \<Rightarrow> (Some e, w1)
            | None \<Rightarrow> (None, w1\<lparr>files := (files w1)(p := None)\<rparr>)))"

text \<open>\<^verbatim>\<open>print(text)\<close>\<close>

definition print :: "string \<Rightarrow> stmt" where
  "print text w = (None, emit (Print text) w)"

section \<open>call_qwen_api\<close>

text \<open>
  \<^verbatim>\<open>call_qwen_api(prompt, video_path)\<close>: without an API key it raises \<^verbatim>\<open>ValueError\<close> before
  any suspension; otherwise the coroutine is suspended on the HTTP exchange (the job
  table is then visible to the other tasks) and returns the content of the reply or
  raises what the exchange raised. \<open>video_path\<close> is not used by the body.
\<close>

definition call_qwen_api :: "env \<Rightarrow> string \<Rightarrow> string option \<Rightarrow> state \<Rightarrow> (exn + string) \<times> state" where
  "call_qwen_api env prompt video_path w =
     (case ollama_api_key env of
        None \<Rightarrow> (Inl (ValueError ''OLLAMA_API_KEY is not configured''), w)
      | Some k \<Rightarrow>
          if k = [] then (Inl (ValueError ''OLLAMA_API_KEY is not configured''), w)
          else (chat_completion env prompt, emit (Yield (jobs w)) w))"

text \<open>\<^verbatim>\<open>ai_response = await call(...)\<close>: the value is bound to a local variable that no later
  statement reads.\<close>

definition await_ai_response :: "(state \<Rightarrow> (exn + string) \<times> state) \<Rightarrow> stmt" where
  "await_ai_response call w =
     (case call w of
        (Inl e, w') \<Rightarrow> (Some e, w')
      | (Inr ai_response, w') \<Rightarrow> (None, w'))"

section \<open>process_video\<close>

text \<open>\<^verbatim>\<open>FORMAT_CONFIGS.get(output_format, FORMAT_CONFIGS["tiktok"])\<close>\<close>

definition get_format_config :: "string \<Rightarrow> format_config" where
  "get_format_config output_format =
     (case map_of FORMAT_CONFIGS output_format of
        Some c \<Rightarrow> c
      | None \<Rightarrow> tiktok_config)"

text \<open>Lines 168 to 192: the filter graph (scale, pad, output with fixed codec settings)
  is built from the input path, the configured width and height and the output path, and
  \<^verbatim>\<open>ffmpeg.run\<close> executes it, blocking.\<close>

definition run_ffmpeg :: "env \<Rightarrow> string \<Rightarrow> format_config \<Rightarrow> string \<Rightarrow> stmt" where
  "run_ffmpeg env video_path config output_path w =
     (let cmd = \<lparr>cmd_input = video_path, cmd_width = width config,
                 cmd_height = height config, cmd_output = output_path\<rparr>;
          w1 = emit (Ffmpeg cmd) w
      in case ffmpeg_run env cmd (files w1) of
           (r, fs) \<Rightarrow> (r, w1\<lparr>files := fs\<rparr>))"

text \<open>Lines 152 to 158: the instruction lookup and its handler.\<close>

definition instruction_lookup :: "env \<Rightarrow> string \<Rightarrow> string \<Rightarrow> string \<Rightarrow> stmt" where
  "instruction_lookup env job_id prompt video_path =
     try_except
       (block
          [await_ai_response (call_qwen_api env prompt (Some video_path)),
           set_field job_id (Progress 30)])
       (\<lambda>e. block
          [print (''AI API error: '' @ str_exn e),
           set_field job_id (Progress 30)])"

text \<open>Lines 167 to 194: the transcode and its handler for \<^verbatim>\<open>ffmpeg.Error\<close>.\<close>

definition transcode :: "env \<Rightarrow> string \<Rightarrow> format_config \<Rightarrow> string \<Rightarrow> stmt" where
  "transcode env video_path config output_path =
     try_except_ffmpeg
       (run_ffmpeg env video_path config output_path)
       (\<lambda>stderr. raise (RuntimeError (''FFmpeg processing failed: '' @ stderr)))"

text \<open>Lines 199 and 200.\<close>

definition verify_output :: "string \<Rightarrow> stmt" where
  "verify_output output_path w =
     (if \<not> path_exists output_path w
      then raise (RuntimeError ''Output file was not created'') w
      else pass w)"

text \<open>Lines 148 to 204, the body of the outer \<^verbatim>\<open>try\<close>.\<close>

definition process_video_body :: "env \<Rightarrow> string \<Rightarrow> string \<Rightarrow> string \<Rightarrow> string \<Rightarrow> stmt" where
  "process_video_body env job_id video_path prompt output_format =
     (let output_path = output_path_of job_id;
          config = get_format_config output_format
      in block
        [set_field job_id (Status Processing),
         set_field job_id (Progress 10),
         instruction_lookup env job_id prompt video_path,
         set_field job_id (Progress 50),
         transcode env video_path config output_path,
         set_field job_id (Progress 90),
         verify_output output_path,
         set_field job_id (Status Completed),
         set_field job_id (Progress 100),
         set_field job_id (OutputUrl (''/api/download/'' @ job_id))])"

text \<open>Lines 206 to 208, the handler of the outer \<^verbatim>\<open>try\<close>.\<close>

definition process_video_handler :: "string \<Rightarrow> exn \<Rightarrow> stmt" where
  "process_video_handler job_id e =
     block
       [set_field job_id (Status Failed),
        set_field job_id (Error (take 500 (str_exn e)))]"

text \<open>Lines 147 to 208: the outer \<^verbatim>\<open>try\<close> with its \<^verbatim>\<open>except Exception\<close>.\<close>

definition process_video_try :: "env \<Rightarrow> string \<Rightarrow> string \<Rightarrow> string \<Rightarrow> string \<Rightarrow> stmt" where
  "process_video_try env job_id video_path prompt output_format =
     try_except
       (process_video_body env job_id video_path prompt output_format)
       (process_video_handler job_id)"

text \<open>Lines 210 to 216, the \<^verbatim>\<open>finally\<close> clause.\<close>

definition process_video_finally :: "env \<Rightarrow> string \<Rightarrow> stmt" where
  "process_video_finally env video_path =
     try_except
       (\<lambda>w. if path_exists video_path w then os_remove env video_path w else pass w)
       (\<lambda>e. pass)"

definition process_video :: "env \<Rightarrow> string \<Rightarrow> string \<Rightarrow> string \<Rightarrow> string \<Rightarrow> stmt" where
  "process_video env job_id video_path prompt output_format =
     try_finally
       (process_video_try env job_id video_path prompt output_format)
       (process_video_finally env video_path)"

section \<open>cleanup_old_jobs\<close>



section \<open>Prompt sanitising\<close>

text \<open>\<^verbatim>\<open>str.strip()\<close>: the white space of Python among the code points below 256.\<close>

definition py_isspace :: "char \<Rightarrow> bool" where
  "py_isspace c = ((of_char c :: nat) \<in> {9, 10, 11, 12, 13, 28, 29, 30, 31, 32, 133, 160})"

definition strip :: "string \<Rightarrow> string" where
  "strip s = rev (dropWhile py_isspace (rev (dropWhile py_isspace s)))"

text \<open>\<^verbatim>\<open>re.sub(r'[<>]', '', v)\<close>\<close>

definition remove_angle_brackets :: "string \<Rightarrow> string" where
  "remove_angle_brackets v = filter (\<lambda>c. c \<noteq> CHR ''<'' \<and> c \<noteq> CHR ''>'') v"

text \<open>Line 281 of \<^verbatim>\<open>edit_video\<close>: \<^verbatim>\<open>re.sub(r'[<>]', '', prompt)[:2000].strip()\<close>\<close>

definition edit_video_sanitize :: "string \<Rightarrow> string" where
  "edit_video_sanitize prompt = strip (take 2000 (remove_angle_brackets prompt))"

text \<open>
  \<^verbatim>\<open>re.sub(r'javascript:', '', v, flags=re.IGNORECASE)\<close>: one pass from the left that
  drops every match and resumes after it. Among the code points below 256 only the ASCII
  letters match a letter of the pattern without regard to case.
\<close>

definition lower_ascii :: "char \<Rightarrow> char" where
  "lower_ascii c =
     (if 65 \<le> (of_char c :: nat) \<and> (of_char c :: nat) \<le> 90
      then char_of ((of_char c :: nat) + 32) else c)"

definition matches_javascript :: "string \<Rightarrow> bool" where
  "matches_javascript v = (map lower_ascii (take 11 v) = ''javascript:'')"

function remove_javascript :: "string \<Rightarrow> string" where
  "remove_javascript [] = []"
| "remove_javascript (c # cs) =
     (if matches_javascript (c # cs)
      then remove_javascript (drop 10 cs)
      else c # remove_javascript cs)"
  by pat_completeness auto
termination
  by (relation "measure length") auto

text \<open>\<^verbatim>\<open>VideoEditRequest.sanitize_prompt\<close>, lines 55 to 61. No handler of the module
  builds a \<^verbatim>\<open>VideoEditRequest\<close>.\<close>

definition sanitize_prompt :: "string \<Rightarrow> string" where
  "sanitize_prompt v = strip (take 2000 (remove_javascript (remove_angle_brackets v)))"

section \<open>edit_video\<close>

text \<open>
  The uploaded file: its declared content type and what the successive calls
  \<^verbatim>\<open>await video.read(8192)\<close> return or raise; after the last element the next read
  returns the empty chunk (end of the upload).
\<close>

record upload =
  content_type :: "string option"
  reads :: "(exn + string) list"

datatype task =
    ProcessVideo string string string string
  | CleanupOldJobs

record response =
  resp_id :: string
  resp_status :: string
  background_tasks :: "task list"

text \<open>\<^verbatim>\<open>sep.join(xs)\<close>\<close>

fun join_str :: "string \<Rightarrow> string list \<Rightarrow> string" where
  "join_str sep [] = []"
| "join_str sep [x] = x"
| "join_str sep (x # y # ys) = x @ sep @ join_str sep (y # ys)"

text \<open>\<^verbatim>\<open>f"Invalid video type. Allowed: {', '.join(ALLOWED_VIDEO_TYPES)}"\<close>: the types are
  joined in the iteration order of the set.\<close>

definition invalid_type_detail :: "env \<Rightarrow> string" where
  "invalid_type_detail env =
     ''Invalid video type. Allowed: '' @ join_str '', '' (allowed_types_order env)"

text \<open>\<^verbatim>\<open>if not file.content_type or file.content_type not in ALLOWED_VIDEO_TYPES\<close>\<close>

definition validate_video_file :: "env \<Rightarrow> upload \<Rightarrow> http_exception option" where
  "validate_video_file env file =
     (case content_type file of
        None \<Rightarrow> Some (HTTPException 400 (invalid_type_detail env))
      | Some t \<Rightarrow>
          if t = [] then Some (HTTPException 400 (invalid_type_detail env))
          else if t \<in> ALLOWED_VIDEO_TYPES then None
          else Some (HTTPException 400 (invalid_type_detail env)))"

text \<open>\<^verbatim>\<open>f.write(chunk)\<close> on the file opened at \<open>p\<close>.\<close>

definition f_write :: "env \<Rightarrow> string \<Rightarrow> string \<Rightarrow> stmt" where
  "f_write env p chunk w =
     (case write_error env p of
        Some e \<Rightarrow> (Some e, w)
      | None \<Rightarrow>
          (case files w p of
             None \<Rightarrow> (None, w)
           | Some content \<Rightarrow> (None, w\<lparr>files := (files w)(p \<mapsto> content @ chunk)\<rparr>)))"

text \<open>
  Lines 266 to 274, the \<^verbatim>\<open>while chunk := await video.read(8192)\<close> loop with the running
  total. The result is the exception that leaves the loop: \<open>Inr\<close> the \<^verbatim>\<open>HTTPException\<close>
  of line 270, \<open>Inl\<close> any other exception.
\<close>

fun read_chunks ::
  "env \<Rightarrow> string \<Rightarrow> (exn + string) list \<Rightarrow> nat \<Rightarrow> state \<Rightarrow> (exn + http_exception) option \<times> state" where
  "read_chunks env video_path [] total_size w = (None, w)"
| "read_chunks env video_path (r # rs) total_size w =
     (case r of
        Inl e \<Rightarrow> (Some (Inl e), w)
      | Inr chunk \<Rightarrow>
          if chunk = [] then (None, w)
          else
            (let total_size' = total_size + length chunk in
             if total_size' > MAX_FILE_SIZE
             then
               (case os_remove env video_path w of
                  (Some e, w') \<Rightarrow> (Some (Inl e), w')
                | (None, w') \<Rightarrow>
                    (Some (Inr (HTTPException 400 ''File too large. Maximum size is 500MB'')), w'))
             else
               (case f_write env video_path chunk w of
                  (Some e, w') \<Rightarrow> (Some (Inl e), w')
                | (None, w') \<Rightarrow> read_chunks env video_path rs total_size' w')))"

text \<open>Lines 263 to 278: \<^verbatim>\<open>open(video_path, "wb")\<close> creates or truncates the file; an
  \<^verbatim>\<open>HTTPException\<close> is raised again as it is, any other exception becomes status 500.\<close>

definition save_upload :: "env \<Rightarrow> string \<Rightarrow> upload \<Rightarrow> state \<Rightarrow> http_exception option \<times> state" where
  "save_upload env video_path video w =
     (case (case open_error env video_path of
              Some e \<Rightarrow> (Some (Inl e), w)
            | None \<Rightarrow>
                read_chunks env video_path (reads video) 0
                  (w\<lparr>files := (files w)(video_path \<mapsto> [])\<rparr>)) of
        (None, w') \<Rightarrow> (None, w')
      | (Some (Inr h), w') \<Rightarrow> (Some h, w')
      | (Some (Inl e), w') \<Rightarrow> (Some (HTTPException 500 ''Failed to save video file''), w'))"

text \<open>Lines 285 to 292, the dictionary stored for a new job.\<close>

definition new_job :: "string \<Rightarrow> real \<Rightarrow> job" where
  "new_job job_id now =
     \<lparr>id_field = job_id, status = Pending, progress = 0,
      output_url = None, error = None, created_at = now\<rparr>"

text \<open>
  The body of \<^verbatim>\<open>edit_video\<close>, which FastAPI calls once it has read the form fields (it
  answers 422 itself to a prompt of more than 2000 characters). \<open>uuid4\<close> is the value of
  \<^verbatim>\<open>str(uuid.uuid4())\<close> and \<open>now\<close> that of \<^verbatim>\<open>time.time()\<close>. The two background tasks are
  returned with the response (they run after it is sent, \<^verbatim>\<open>process_video\<close> first).
\<close>

definition edit_video ::
  "env \<Rightarrow> string \<Rightarrow> real \<Rightarrow> string \<Rightarrow> string \<Rightarrow> upload option \<Rightarrow> state
     \<Rightarrow> (http_exception + response) \<times> state" where
  "edit_video env uuid4 now prompt format video_opt w =
     (let format' = (if map_of FORMAT_CONFIGS format = None then ''tiktok'' else format) in
      case video_opt of
        None \<Rightarrow> (Inl (HTTPException 400 ''Video file is required''), w)
      | Some video \<Rightarrow>
          (case validate_video_file env video of
             Some h \<Rightarrow> (Inl h, w)
           | None \<Rightarrow>
               (let job_id = uuid4;
                    video_path = input_path_of job_id
                in case save_upload env video_path video w of
                     (Some h, w') \<Rightarrow> (Inl h, w')
                   | (None, w') \<Rightarrow>
                       (let sanitized_prompt = edit_video_sanitize prompt;
                            w'' = w'\<lparr>jobs := AList.update job_id (new_job job_id now) (jobs w')\<rparr>
                        in (Inr \<lparr>resp_id = job_id, resp_status = ''pending'',
                                 background_tasks =
                                   [ProcessVideo job_id video_path sanitized_prompt format',
                                    CleanupOldJobs]\<rparr>,
                            w'')))))"

section \<open>Observations on a run\<close>

text \<open>The events a run appended to the trace, from the states before and after it.\<close>

definition events_since :: "state \<Rightarrow> state \<Rightarrow> event list" where
  "events_since w w' = drop (length (trace w)) (trace w')"

fun write_of :: "string \<Rightarrow> event \<Rightarrow> field_write list" where
  "write_of job_id (Write k fw) = (if k = job_id then [fw] else [])"
| "write_of job_id (Yield js) = []"
| "write_of job_id (Ffmpeg c) = []"
| "write_of job_id (OsRemove p) = []"
| "write_of job_id (Print t) = []"

text \<open>The assignments to the fields of one job, in program order.\<close>

definition job_writes :: "string \<Rightarrow> event list \<Rightarrow> field_write list" where
  "job_writes job_id evs = concat (map (write_of job_id) evs)"

fun status_of :: "field_write \<Rightarrow> status list" where
  "status_of (Status s) = [s]"
| "status_of (Progress n) = []"
| "status_of (OutputUrl u) = []"
| "status_of (Error m) = []"

fun progress_of :: "field_write \<Rightarrow> int list" where
  "progress_of (Progress n) = [n]"
| "progress_of (Status s) = []"
| "progress_of (OutputUrl u) = []"
| "progress_of (Error m) = []"

definition status_writes :: "string \<Rightarrow> event list \<Rightarrow> status list" where
  "status_writes job_id evs = concat (map status_of (job_writes job_id evs))"

definition progress_writes :: "string \<Rightarrow> event list \<Rightarrow> int list" where
  "progress_writes job_id evs = concat (map progress_of (job_writes job_id evs))"

fun yield_of :: "event \<Rightarrow> (string \<times> job) list list" where
  "yield_of (Yield js) = [js]"
| "yield_of (Write k fw) = []"
| "yield_of (Ffmpeg c) = []"
| "yield_of (OsRemove p) = []"
| "yield_of (Print t) = []"

text \<open>The job table as the other tasks of the event loop found it, at each suspension
  of the run.\<close>

definition snapshots :: "event list \<Rightarrow> (string \<times> job) list list" where
  "snapshots evs = concat (map yield_of evs)"

text \<open>The arcs pending to processing, processing to completed, processing to failed.\<close>

fun status_step :: "status \<Rightarrow> status \<Rightarrow> bool" where
  "status_step Pending Processing = True"
| "status_step Processing Completed = True"
| "status_step Processing Failed = True"
| "status_step a b = False"

fun status_chain :: "status list \<Rightarrow> bool" where
  "status_chain [] = True"
| "status_chain [a] = True"
| "status_chain (a # b # rest) = (status_step a b \<and> status_chain (b # rest))"


text \<open>The command that \<^verbatim>\<open>process_video\<close> hands to ffmpeg.\<close>

definition transcode_cmd :: "string \<Rightarrow> string \<Rightarrow> string \<Rightarrow> ffmpeg_cmd" where
  "transcode_cmd video_path output_format job_id =
     \<lparr>cmd_input = video_path,
      cmd_width = width (get_format_config output_format),
      cmd_height = height (get_format_config output_format),
      cmd_output = output_path_of job_id\<rparr>"

text \<open>What the instruction lookup leaves in the trace before progress 30 is written,
  given the job table at that moment.\<close>

definition advisor_events :: "env \<Rightarrow> string \<Rightarrow> (string \<times> job) list \<Rightarrow> event list" where
  "advisor_events env prompt js =
     (case ollama_api_key env of
        None \<Rightarrow> [Print ''AI API error: OLLAMA_API_KEY is not configured'']
      | Some k \<Rightarrow>
          if k = [] then [Print ''AI API error: OLLAMA_API_KEY is not configured'']
          else (case chat_completion env prompt of
                  Inl e \<Rightarrow> [Yield js, Print (''AI API error: '' @ str_exn e)]
                | Inr r \<Rightarrow> [Yield js]))"

text \<open>The exception that leaves lines 167 to 194 when ffmpeg returned \<open>r\<close>.\<close>

definition transcode_exn :: "exn option \<Rightarrow> exn option" where
  "transcode_exn r =
     (case r of
        Some (FfmpegError s) \<Rightarrow> Some (RuntimeError (''FFmpeg processing failed: '' @ s))
      | Some e \<Rightarrow> Some e
      | None \<Rightarrow> None)"

text \<open>The exception that reaches the outer handler from the transcode and the
  verification, when ffmpeg returned \<open>r\<close> and left the file system \<open>fs\<close>; \<open>None\<close> when
  both stages pass.\<close>

definition transcode_failure :: "exn option \<Rightarrow> (string \<rightharpoonup> string) \<Rightarrow> string \<Rightarrow> exn option" where
  "transcode_failure r fs output_path =
     (case transcode_exn r of
        Some e \<Rightarrow> Some e
      | None \<Rightarrow>
          if fs output_path = None then Some (RuntimeError ''Output file was not created'')
          else None)"

text \<open>The assignments that follow progress 50.\<close>

definition outcome_writes :: "exn option \<Rightarrow> (string \<rightharpoonup> string) \<Rightarrow> string \<Rightarrow> field_write list" where
  "outcome_writes r fs job_id =
     (case r of None \<Rightarrow> [Progress 90] | Some e \<Rightarrow> []) @
     (case transcode_failure r fs (output_path_of job_id) of
        Some e \<Rightarrow> [Status Failed, Error (take 500 (str_exn e))]
      | None \<Rightarrow> [Status Completed, Progress 100, OutputUrl (''/api/download/'' @ job_id)])"

text \<open>The statements of the body of the outer \<^verbatim>\<open>try\<close> (lines 148 to 204) as a list, line
  202 being the eighth, and the state in which the first eight leave a state \<open>w\<close>.\<close>

definition process_video_stmts :: "env \<Rightarrow> string \<Rightarrow> string \<Rightarrow> string \<Rightarrow> string \<Rightarrow> stmt list" where
  "process_video_stmts env job_id video_path prompt output_format =
     [set_field job_id (Status Processing),
      set_field job_id (Progress 10),
      instruction_lookup env job_id prompt video_path,
      set_field job_id (Progress 50),
      transcode env video_path (get_format_config output_format) (output_path_of job_id),
      set_field job_id (Progress 90),
      verify_output (output_path_of job_id),
      set_field job_id (Status Completed),
      set_field job_id (Progress 100),
      set_field job_id (OutputUrl (''/api/download/'' @ job_id))]"



text \<open>What the \<^verbatim>\<open>finally\<close> clause of \<^verbatim>\<open>process_video\<close> appends to the trace and leaves
  of the file system \<open>fs\<close> it finds.\<close>

definition cleanup_events :: "string \<Rightarrow> (string \<rightharpoonup> string) \<Rightarrow> event list" where
  "cleanup_events video_path fs = (if fs video_path = None then [] else [OsRemove video_path])"

definition cleanup_files :: "env \<Rightarrow> string \<Rightarrow> (string \<rightharpoonup> string) \<Rightarrow> (string \<rightharpoonup> string)" where
  "cleanup_files env video_path fs =
     (case remove_error env video_path of None \<Rightarrow> fs(video_path := None) | Some e \<Rightarrow> fs)"

section \<open>Concrete inputs\<close>

text \<open>An environment in which nothing fails: the provider answers, ffmpeg writes its
  output file, the file-system calls succeed.\<close>

definition env_ok :: env where
  "env_ok =
     \<lparr>ollama_api_key = Some ''key'',
      chat_completion = (\<lambda>p. Inr ''{}''),
      ffmpeg_run = (\<lambda>c fs. (None, fs(cmd_output c \<mapsto> ''video''))),
      open_error = (\<lambda>p. None),
      write_error = (\<lambda>p. None),
      remove_error = (\<lambda>p. None),
      allowed_types_order =
        [''video/mp4'', ''video/webm'', ''video/quicktime'', ''video/x-msvideo'',
         ''video/x-matroska'']\<rparr>"

definition upload_small :: upload where
  "upload_small = \<lparr>content_type = Some ''video/mp4'', reads = [Inr ''abc'', Inr ''de'']\<rparr>"

definition st_empty :: state where
  "st_empty = \<lparr>jobs = [], files = Map.empty, trace = []\<rparr>"

text \<open>The state in which \<^verbatim>\<open>edit_video\<close> leaves \<open>st_empty\<close> for \<open>upload_small\<close>, job id
  \<open>job-1\<close> and time 0.\<close>

definition st_created :: state where
  "st_created =
     \<lparr>jobs = [(''job-1'', new_job ''job-1'' 0)],
      files = [input_path_of ''job-1'' \<mapsto> ''abcde''],
      trace = []\<rparr>"

text \<open>The record of \<open>job-1\<close> once completed, and a state that holds it with its output
  file.\<close>

definition job_done :: job where
  "job_done =
     (new_job ''job-1'' 0)\<lparr>status := Completed, progress := 100,
        output_url := Some ''/api/download/job-1''\<rparr>"


text \<open>An input file whose job is not in the table.\<close>

definition st_orphan :: state where
  "st_orphan =
     \<lparr>jobs = [], files = [input_path_of ''job-1'' \<mapsto> ''abcde''], trace = []\<rparr>"

text \<open>Environments with one fault each: the provider times out, ffmpeg exits with an
  error, the system refuses to delete files.\<close>

definition env_advisor_down :: env where
  "env_advisor_down = env_ok\<lparr>chat_completion := (\<lambda>p. Inl (OtherException ''timed out''))\<rparr>"

definition env_ffmpeg_fails :: env where
  "env_ffmpeg_fails =
     env_ok\<lparr>ffmpeg_run := (\<lambda>c fs. (Some (FfmpegError ''invalid data''), fs))\<rparr>"

definition env_remove_fails :: env where
  "env_remove_fails =
     env_ok\<lparr>remove_error := (\<lambda>p. Some (OtherException ''Permission denied''))\<rparr>"

text \<open>An upload of 64001 chunks of 8192 bytes, 8192 bytes more than the cap.\<close>

definition upload_large :: upload where
  "upload_large =
     \<lparr>content_type = Some ''video/mp4'',
      reads = map Inr (replicate 64001 (replicate 8192 (CHR ''a'')))\<rparr>"

section \<open>The primitives and the stages of the pipeline\<close>

lemma set_field_present:
  "map_of (jobs w) k = Some j \<Longrightarrow>
   set_field k fw w =
     (None, w\<lparr>jobs := AList.update k (apply_write fw j) (jobs w),
              trace := trace w @ [Write k fw]\<rparr>)"
  by (simp add: set_field_def emit_def)

lemma set_field_absent:
  "map_of (jobs w) k = None \<Longrightarrow> set_field k fw w = (Some (KeyError k), w)"
  by (simp add: set_field_def)

lemma instruction_lookup_present:
  assumes "map_of (jobs w) k = Some j"
  shows "instruction_lookup env k prompt vp w =
     (None, w\<lparr>jobs := AList.update k (j\<lparr>progress := 30\<rparr>) (jobs w),
              trace := trace w @ advisor_events env prompt (jobs w) @ [Write k (Progress 30)]\<rparr>)"
proof (cases "ollama_api_key env")
  case None
  then show ?thesis using assms
    by (simp add: instruction_lookup_def try_except_def await_ai_response_def call_qwen_api_def
        print_def emit_def set_field_present advisor_events_def)
next
  case (Some key)
  show ?thesis
  proof (cases "chat_completion env prompt")
    case (Inl e)
    then show ?thesis using assms Some
      by (simp add: instruction_lookup_def try_except_def await_ai_response_def call_qwen_api_def
        print_def emit_def set_field_present advisor_events_def)
  next
    case (Inr r)
    then show ?thesis using assms Some
      by (simp add: instruction_lookup_def try_except_def await_ai_response_def call_qwen_api_def
        print_def emit_def set_field_present advisor_events_def)
  qed
qed

lemma transcode_result:
  assumes "ffmpeg_run env (transcode_cmd vp fmt k) (files w) = (r, fs)"
  shows "transcode env vp (get_format_config fmt) (output_path_of k) w =
     (transcode_exn r,
      w\<lparr>files := fs, trace := trace w @ [Ffmpeg (transcode_cmd vp fmt k)]\<rparr>)"
proof (cases r)
  case None
  then show ?thesis using assms
    by (simp add: transcode_def try_except_ffmpeg_def run_ffmpeg_def emit_def Let_def
        transcode_cmd_def raise_def transcode_exn_def)
next
  case (Some e)
  then show ?thesis using assms
    by (cases e) (simp_all add: transcode_def try_except_ffmpeg_def run_ffmpeg_def emit_def Let_def
        transcode_cmd_def raise_def transcode_exn_def)
qed

lemma process_video_try_absent:
  assumes "map_of (jobs w) k = None"
  shows "process_video_try env k vp prompt fmt w = (Some (KeyError k), w)"
  using assms
  by (simp add: process_video_try_def process_video_body_def process_video_handler_def
      try_except_def set_field_absent Let_def)

lemma process_video_try_present:
  assumes "map_of (jobs w) k = Some j"
    and "ffmpeg_run env (transcode_cmd vp fmt k) (files w) = (r, fs)"
  shows "process_video_try env k vp prompt fmt w =
     (None,
      w\<lparr>jobs := AList.update k
           (fold apply_write (outcome_writes r fs k) (j\<lparr>status := Processing, progress := 50\<rparr>)) (jobs w),
        files := fs,
        trace := trace w @ [Write k (Status Processing), Write k (Progress 10)] @
           advisor_events env prompt (AList.update k (j\<lparr>status := Processing, progress := 10\<rparr>) (jobs w)) @
           [Write k (Progress 30), Write k (Progress 50), Ffmpeg (transcode_cmd vp fmt k)] @
           map (Write k) (outcome_writes r fs k)\<rparr>)"
proof (cases "transcode_exn r")
  case (Some e)
  then have "r \<noteq> None" by (auto simp: transcode_exn_def split: option.splits)
  with Some show ?thesis using assms
    by (auto simp add: process_video_try_def process_video_body_def process_video_handler_def
      try_except_def Let_def set_field_present instruction_lookup_present transcode_result update_conv'
      outcome_writes_def transcode_failure_def)
next
  case None
  then have r: "r = None" by (auto simp: transcode_exn_def split: option.splits exn.splits)
  show ?thesis
  proof (cases "fs (output_path_of k)")
    case None
    with r \<open>transcode_exn r = None\<close> show ?thesis using assms
      by (simp add: process_video_try_def process_video_body_def process_video_handler_def
      try_except_def Let_def set_field_present instruction_lookup_present transcode_result update_conv'
      outcome_writes_def transcode_failure_def verify_output_def path_exists_def raise_def pass_def)
  next
    case (Some c)
    with r \<open>transcode_exn r = None\<close> show ?thesis using assms
      by (simp add: process_video_try_def process_video_body_def process_video_handler_def
      try_except_def Let_def set_field_present instruction_lookup_present transcode_result update_conv'
      outcome_writes_def transcode_failure_def verify_output_def path_exists_def raise_def pass_def)
  qed
qed


lemma process_video_finally_result:
  "process_video_finally env vp w =
     (None, w\<lparr>files := cleanup_files env vp (files w),
              trace := trace w @ cleanup_events vp (files w)\<rparr>)"
proof (cases "files w vp")
  case None
  then have "cleanup_files env vp (files w) = files w"
    by (auto simp: cleanup_files_def split: option.splits)
  with None show ?thesis
    by (simp add: process_video_finally_def try_except_def path_exists_def pass_def
        cleanup_events_def)
next
  case (Some c)
  then show ?thesis
    by (cases "remove_error env vp")
       (simp_all add: process_video_finally_def try_except_def path_exists_def pass_def
        cleanup_events_def cleanup_files_def os_remove_def emit_def Let_def)
qed

lemma process_video_split:
  "process_video env k vp prompt fmt w =
     (fst (process_video_try env k vp prompt fmt w),
      snd (process_video_finally env vp (snd (process_video_try env k vp prompt fmt w))))"
  by (simp add: process_video_def try_finally_def process_video_finally_result
      split: prod.splits)

lemma process_video_absent:
  assumes "map_of (jobs w) k = None"
  shows "process_video env k vp prompt fmt w =
     (Some (KeyError k),
      w\<lparr>files := cleanup_files env vp (files w),
        trace := trace w @ cleanup_events vp (files w)\<rparr>)"
  by (simp add: process_video_split process_video_try_absent [OF assms]
      process_video_finally_result)

lemma process_video_present:
  assumes "map_of (jobs w) k = Some j"
    and "ffmpeg_run env (transcode_cmd vp fmt k) (files w) = (r, fs)"
  shows "process_video env k vp prompt fmt w =
     (None,
      w\<lparr>jobs := AList.update k
           (fold apply_write (outcome_writes r fs k) (j\<lparr>status := Processing, progress := 50\<rparr>)) (jobs w),
        files := cleanup_files env vp fs,
        trace := trace w @ [Write k (Status Processing), Write k (Progress 10)] @
           advisor_events env prompt (AList.update k (j\<lparr>status := Processing, progress := 10\<rparr>) (jobs w)) @
           [Write k (Progress 30), Write k (Progress 50), Ffmpeg (transcode_cmd vp fmt k)] @
           map (Write k) (outcome_writes r fs k) @ cleanup_events vp fs\<rparr>)"
  by (simp add: process_video_split process_video_try_present [OF assms]
      process_video_finally_result)

lemma events_since_append [simp]:
  "trace w' = trace w @ evs \<Longrightarrow> events_since w w' = evs"
  by (simp add: events_since_def)

lemma job_writes_append [simp]:
  "job_writes k (xs @ ys) = job_writes k xs @ job_writes k ys"
  by (simp add: job_writes_def)

lemma job_writes_Cons_Write [simp]:
  "job_writes k (Write k fw # evs) = fw # job_writes k evs"
  by (simp add: job_writes_def)

lemma job_writes_Nil [simp]: "job_writes k [] = []"
  by (simp add: job_writes_def)

lemma job_writes_Ffmpeg [simp]: "job_writes k (Ffmpeg c # evs) = job_writes k evs"
  by (simp add: job_writes_def)

lemma job_writes_map_Write [simp]: "job_writes k (map (Write k) fws) = fws"
  by (induction fws) simp_all

lemma job_writes_advisor [simp]: "job_writes k (advisor_events env prompt js) = []"
  by (simp add: advisor_events_def job_writes_def split: option.splits sum.splits)

lemma job_writes_cleanup [simp]: "job_writes k (cleanup_events vp fs) = []"
  by (simp add: cleanup_events_def job_writes_def)

lemma process_video_job_writes:
  assumes "map_of (jobs w) k = Some j"
    and "ffmpeg_run env (transcode_cmd vp fmt k) (files w) = (r, fs)"
  shows "job_writes k (events_since w (snd (process_video env k vp prompt fmt w))) =
     [Status Processing, Progress 10, Progress 30, Progress 50] @ outcome_writes r fs k"
  by (simp add: process_video_present [OF assms])

lemma process_video_final_job:
  assumes "map_of (jobs w) k = Some j"
    and "ffmpeg_run env (transcode_cmd vp fmt k) (files w) = (r, fs)"
  shows "map_of (jobs (snd (process_video env k vp prompt fmt w))) k =
     Some (fold apply_write (outcome_writes r fs k) (j\<lparr>status := Processing, progress := 50\<rparr>))"
  by (simp add: process_video_present [OF assms] update_conv')

lemma job_writes_other_Write [simp]:
  "k' \<noteq> k \<Longrightarrow> job_writes k' (Write k fw # evs) = job_writes k' evs"
  by (simp add: job_writes_def)

lemma job_writes_other_map [simp]:
  "k' \<noteq> k \<Longrightarrow> job_writes k' (map (Write k) fws) = []"
  by (induction fws) simp_all

lemma process_video_other_jobs:
  assumes "k \<noteq> job_id"
  shows "map_of (jobs (snd (process_video env job_id vp prompt fmt w))) k = map_of (jobs w) k"
    and "job_writes k (events_since w (snd (process_video env job_id vp prompt fmt w))) = []"
proof -
  obtain r fs where rf: "ffmpeg_run env (transcode_cmd vp fmt job_id) (files w) = (r, fs)"
    by (cases "ffmpeg_run env (transcode_cmd vp fmt job_id) (files w)")
  show "map_of (jobs (snd (process_video env job_id vp prompt fmt w))) k = map_of (jobs w) k"
  proof (cases "map_of (jobs w) job_id")
    case None
    then show ?thesis by (simp add: process_video_absent)
  next
    case (Some j)
    then show ?thesis using assms by (simp add: process_video_present [OF Some rf] update_conv')
  qed
  show "job_writes k (events_since w (snd (process_video env job_id vp prompt fmt w))) = []"
  proof (cases "map_of (jobs w) job_id")
    case None
    then show ?thesis by (simp add: process_video_absent)
  next
    case (Some j)
    then show ?thesis using assms by (simp add: process_video_present [OF Some rf])
  qed
qed

lemma process_video_absent_no_writes:
  assumes "map_of (jobs w) job_id = None"
  shows "fst (process_video env job_id vp prompt fmt w) = Some (KeyError job_id)"
    and "jobs (snd (process_video env job_id vp prompt fmt w)) = jobs w"
    and "job_writes k (events_since w (snd (process_video env job_id vp prompt fmt w))) = []"
  using assms by (simp_all add: process_video_absent)

lemma outcome_writes_cases:
  "(\<exists>e. transcode_failure r fs (output_path_of k) = Some e \<and> r \<noteq> None \<and>
        outcome_writes r fs k = [Status Failed, Error (take 500 (str_exn e))]) \<or>
   (\<exists>e. transcode_failure r fs (output_path_of k) = Some e \<and> r = None \<and>
        outcome_writes r fs k = [Progress 90, Status Failed, Error (take 500 (str_exn e))]) \<or>
   (transcode_failure r fs (output_path_of k) = None \<and> r = None \<and>
        outcome_writes r fs k =
          [Progress 90, Status Completed, Progress 100, OutputUrl (''/api/download/'' @ k)])"
  by (cases r) (auto simp: outcome_writes_def transcode_failure_def transcode_exn_def
      split: exn.splits)


lemma snapshots_append [simp]: "snapshots (xs @ ys) = snapshots xs @ snapshots ys"
  by (simp add: snapshots_def)

lemma snapshots_Cons_Write [simp]: "snapshots (Write k fw # evs) = snapshots evs"
  by (simp add: snapshots_def)

lemma snapshots_Nil [simp]: "snapshots [] = []"
  by (simp add: snapshots_def)

lemma snapshots_Ffmpeg [simp]: "snapshots (Ffmpeg c # evs) = snapshots evs"
  by (simp add: snapshots_def)

lemma snapshots_map_Write [simp]: "snapshots (map (Write k) fws) = []"
  by (induction fws) simp_all

lemma snapshots_cleanup [simp]: "snapshots (cleanup_events vp fs) = []"
  by (simp add: cleanup_events_def snapshots_def)



section \<open>The job created by a submission\<close>


lemma st_created_job: "map_of (jobs st_created) ''job-1'' = Some (new_job ''job-1'' 0)"
  by (simp add: st_created_def)

text \<open>The run of the pipeline for this job when nothing fails, and the record it
  leaves when ffmpeg fails.\<close>

lemma run_completes:
  "process_video env_ok ''job-1'' (input_path_of ''job-1'') ''make it square'' ''square''
     st_created =
   (None,
    \<lparr>jobs = [(''job-1'', job_done)],
     files = [output_path_of ''job-1'' \<mapsto> ''video''],
     trace =
       [Write ''job-1'' (Status Processing), Write ''job-1'' (Progress 10),
        Yield [(''job-1'', (new_job ''job-1'' 0)\<lparr>status := Processing, progress := 10\<rparr>)],
        Write ''job-1'' (Progress 30), Write ''job-1'' (Progress 50),
        Ffmpeg \<lparr>cmd_input = input_path_of ''job-1'', cmd_width = 1080, cmd_height = 1080,
                cmd_output = output_path_of ''job-1''\<rparr>,
        Write ''job-1'' (Progress 90), Write ''job-1'' (Status Completed),
        Write ''job-1'' (Progress 100), Write ''job-1'' (OutputUrl ''/api/download/job-1''),
        OsRemove (input_path_of ''job-1'')]\<rparr>)"
proof -
  have rf: "ffmpeg_run env_ok (transcode_cmd (input_path_of ''job-1'') ''square'' ''job-1'')
       (files st_created) =
     (None, (files st_created)(output_path_of ''job-1'' \<mapsto> ''video''))"
    by (simp add: env_ok_def transcode_cmd_def)
  have neq: "input_path_of ''job-1'' \<noteq> output_path_of ''job-1''"
    by (simp add: input_path_of_def output_path_of_def)
  show ?thesis
    unfolding process_video_present [OF st_created_job rf]
    using neq
    by (simp add: outcome_writes_def
        transcode_failure_def transcode_exn_def advisor_events_def cleanup_events_def
        cleanup_files_def env_ok_def st_created_def job_done_def new_job_def
        transcode_cmd_def get_format_config_def FORMAT_CONFIGS_def fun_upd_twist)
qed

lemma run_fails:
  "map_of (jobs (snd (process_video env_ffmpeg_fails ''job-1'' (input_path_of ''job-1'')
      ''make it square'' ''square'' st_created))) ''job-1'' =
   Some ((new_job ''job-1'' 0)\<lparr>status := Failed, progress := 50,
           error := Some ''FFmpeg processing failed: invalid data''\<rparr>)"
proof -
  have rf: "ffmpeg_run env_ffmpeg_fails (transcode_cmd (input_path_of ''job-1'') ''square'' ''job-1'')
       (files st_created) = (Some (FfmpegError ''invalid data''), files st_created)"
    by (simp add: env_ffmpeg_fails_def env_ok_def)
  show ?thesis
    by (simp add: process_video_final_job [OF st_created_job rf] outcome_writes_def
        transcode_failure_def transcode_exn_def new_job_def)
qed

section \<open>Status transitions (C1)\<close>

text \<open>
  C1. A job starts as \<^verbatim>\<open>edit_video\<close> stores it, with status pending. For a job that is
  in the table with status pending when its pipeline starts, the statuses the record
  takes, that is its first status followed by the values \<^verbatim>\<open>process_video\<close> assigns to
  the status field in program order, follow the arcs pending to processing, processing
  to completed, processing to failed and no other; no status occurs twice; and the
  status found in the table when the pipeline has exited is the last of them. The run
  assigns no field of any other job and leaves the other records as they are. The
  environment (provider, ffmpeg, file system) is arbitrary, so this holds on every path
  of the pipeline. (A run for a job that is not in the table assigns nothing:
  \<open>process_video_absent_no_writes\<close>.)
\<close>

theorem status_moves_forward:
  assumes "map_of (jobs w) job_id = Some j" and "status j = Pending"
  shows "let w' = snd (process_video env job_id video_path prompt output_format w);
             history = status j # status_writes job_id (events_since w w')
         in status_chain history \<and> distinct history \<and>
            map_option status (map_of (jobs w') job_id) = Some (last history) \<and>
            (\<forall>k. k \<noteq> job_id \<longrightarrow>
               job_writes k (events_since w w') = [] \<and>
               map_of (jobs w') k = map_of (jobs w) k)"
proof -
  obtain r fs where rf:
    "ffmpeg_run env (transcode_cmd video_path output_format job_id) (files w) = (r, fs)"
    by (cases "ffmpeg_run env (transcode_cmd video_path output_format job_id) (files w)")
  note jw = process_video_job_writes [OF assms(1) rf, of prompt]
  note fj = process_video_final_job [OF assms(1) rf, of prompt]
  note others = process_video_other_jobs [where job_id = job_id and env = env
      and vp = video_path and prompt = prompt and fmt = output_format and w = w]
  from outcome_writes_cases [of r fs job_id] show ?thesis
    using assms(2) by (auto simp: Let_def status_writes_def jw fj others)
qed

theorem status_moves_forward_witness:
  "map_of (jobs st_created) ''job-1'' = Some (new_job ''job-1'' 0) \<and>
   status (new_job ''job-1'' 0) = Pending \<and>
   (let w' = snd (process_video env_ok ''job-1'' (input_path_of ''job-1'') ''make it square''
                    ''square'' st_created);
        history = status (new_job ''job-1'' 0) # status_writes ''job-1'' (events_since st_created w')
    in status_chain history \<and> distinct history \<and>
       map_option status (map_of (jobs w') ''job-1'') = Some (last history) \<and>
       (\<forall>k. k \<noteq> ''job-1'' \<longrightarrow>
          job_writes k (events_since st_created w') = [] \<and>
          map_of (jobs w') k = map_of (jobs st_created) k))"
proof -
  have h1: "map_of (jobs st_created) ''job-1'' = Some (new_job ''job-1'' 0)"
    by (rule st_created_job)
  have h2: "status (new_job ''job-1'' 0) = Pending"
    by (simp add: new_job_def)
  from status_moves_forward [OF h1 h2, where env = env_ok
      and video_path = "input_path_of ''job-1''" and prompt = "''make it square''"
      and output_format = "''square''"] h1 h2
  show ?thesis by blast
qed

section \<open>Progress checkpoints (C2)\<close>

text \<open>
  C2. For a job that is in the table with progress 0 (as \<^verbatim>\<open>edit_video\<close> stores it) when
  its pipeline starts: the values the progress field takes, 0 followed by the values
  \<^verbatim>\<open>process_video\<close> assigns in program order, are non-decreasing; the assigned values
  are an initial segment of 10, 30, 50, 90, 100; the progress in the table at exit is
  the last of them. The run starts with status processing and progress 10, then the
  instruction lookup (whatever its outcome), then progress 30, progress 50 and the call
  of ffmpeg; progress 90 is assigned exactly when ffmpeg returned without an exception;
  and a run that assigns status completed has made exactly the assignments processing,
  10, 30, 50, 90, completed, 100, output url, in this order.
\<close>

theorem progress_checkpoints_in_order:
  assumes "map_of (jobs w) job_id = Some j" and "progress j = 0"
  shows "let w' = snd (process_video env job_id video_path prompt output_format w);
             evs = events_since w w';
             ps = progress_writes job_id evs;
             cmd = transcode_cmd video_path output_format job_id
         in sorted (progress j # ps) \<and>
            ps = take (length ps) [10, 30, 50, 90, 100] \<and>
            map_option progress (map_of (jobs w') job_id) = Some (last (progress j # ps)) \<and>
            (\<exists>rest. evs =
               [Write job_id (Status Processing), Write job_id (Progress 10)] @
               advisor_events env prompt
                 (AList.update job_id (j\<lparr>status := Processing, progress := 10\<rparr>) (jobs w)) @
               [Write job_id (Progress 30), Write job_id (Progress 50), Ffmpeg cmd] @ rest) \<and>
            (90 \<in> set ps \<longleftrightarrow> fst (ffmpeg_run env cmd (files w)) = None) \<and>
            (Completed \<in> set (status_writes job_id evs) \<longrightarrow>
               job_writes job_id evs =
                 [Status Processing, Progress 10, Progress 30, Progress 50, Progress 90,
                  Status Completed, Progress 100, OutputUrl (''/api/download/'' @ job_id)])"
proof -
  obtain r fs where rf:
    "ffmpeg_run env (transcode_cmd video_path output_format job_id) (files w) = (r, fs)"
    by (cases "ffmpeg_run env (transcode_cmd video_path output_format job_id) (files w)")
  note jw = process_video_job_writes [OF assms(1) rf, of prompt]
  note fj = process_video_final_job [OF assms(1) rf, of prompt]
  have tr: "\<exists>rest. events_since w (snd (process_video env job_id video_path prompt output_format w)) =
               [Write job_id (Status Processing), Write job_id (Progress 10)] @
               advisor_events env prompt
                 (AList.update job_id (j\<lparr>status := Processing, progress := 10\<rparr>) (jobs w)) @
               [Write job_id (Progress 30), Write job_id (Progress 50),
                Ffmpeg (transcode_cmd video_path output_format job_id)] @ rest"
    by (simp add: process_video_present [OF assms(1) rf])
  from outcome_writes_cases [of r fs job_id] show ?thesis
    using assms(2) tr rf
    by (auto simp: Let_def status_writes_def progress_writes_def jw fj)
qed

theorem progress_checkpoints_in_order_witness:
  "map_of (jobs st_created) ''job-1'' = Some (new_job ''job-1'' 0) \<and>
   progress (new_job ''job-1'' 0) = 0 \<and>
   (let w' = snd (process_video env_ok ''job-1'' (input_path_of ''job-1'') ''make it square''
                    ''square'' st_created);
        evs = events_since st_created w';
        ps = progress_writes ''job-1'' evs;
        cmd = transcode_cmd (input_path_of ''job-1'') ''square'' ''job-1''
    in sorted (progress (new_job ''job-1'' 0) # ps) \<and>
       ps = take (length ps) [10, 30, 50, 90, 100] \<and>
       map_option progress (map_of (jobs w') ''job-1'') =
         Some (last (progress (new_job ''job-1'' 0) # ps)) \<and>
       (\<exists>rest. evs =
          [Write ''job-1'' (Status Processing), Write ''job-1'' (Progress 10)] @
          advisor_events env_ok ''make it square''
            (AList.update ''job-1'' ((new_job ''job-1'' 0)\<lparr>status := Processing, progress := 10\<rparr>)
               (jobs st_created)) @
          [Write ''job-1'' (Progress 30), Write ''job-1'' (Progress 50), Ffmpeg cmd] @ rest) \<and>
       (90 \<in> set ps \<longleftrightarrow> fst (ffmpeg_run env_ok cmd (files st_created)) = None) \<and>
       (Completed \<in> set (status_writes ''job-1'' evs) \<longrightarrow>
          job_writes ''job-1'' evs =
            [Status Processing, Progress 10, Progress 30, Progress 50, Progress 90,
             Status Completed, Progress 100, OutputUrl (''/api/download/'' @ ''job-1'')]))"
proof -
  have h1: "map_of (jobs st_created) ''job-1'' = Some (new_job ''job-1'' 0)"
    by (rule st_created_job)
  have h2: "progress (new_job ''job-1'' 0) = 0"
    by (simp add: new_job_def)
  from progress_checkpoints_in_order [OF h1 h2, where env = env_ok
      and video_path = "input_path_of ''job-1''" and prompt = "''make it square''"
      and output_format = "''square''"] h1 h2
  show ?thesis by blast
qed

section \<open>Status, output handle and error summary (C3)\<close>




lemma process_video_body_stmts:
  "process_video_body env k vp prompt fmt = block (process_video_stmts env k vp prompt fmt)"
  by (simp add: process_video_body_def process_video_stmts_def Let_def)






section \<open>Failure of the instruction lookup (C4)\<close>

lemma advisor_events_failure:
  assumes "fst (call_qwen_api env prompt v s) = Inl e"
  shows "\<exists>pre. advisor_events env prompt js = pre @ [Print (''AI API error: '' @ str_exn e)]"
  using assms
  by (auto simp: call_qwen_api_def advisor_events_def split: option.splits if_splits sum.splits)

text \<open>
  C4. For a job that is in the table: when the call of the AI provider raises an
  exception \<open>e\<close>, whatever it is, \<^verbatim>\<open>process_video\<close> raises nothing; it prints the error,
  then assigns progress 30, then progress 50, then calls ffmpeg; its assignments are
  processing, 10, 30, 50 followed by those that the outcome of the transcode alone
  decides. The job ends completed when the transcode and the verification pass, and
  failed otherwise, and then the error summary is that of the transcode: \<open>e\<close> never fails
  the job and never reaches the record.
\<close>

theorem advisor_failure_absorbed:
  assumes "map_of (jobs w) job_id = Some j"
    and "fst (call_qwen_api env prompt (Some video_path) s) = Inl e"
    and "ffmpeg_run env (transcode_cmd video_path output_format job_id) (files w) = (r, fs)"
  shows "let res = process_video env job_id video_path prompt output_format w;
             w' = snd res;
             evs = events_since w w';
             failure = transcode_failure r fs (output_path_of job_id)
         in fst res = None \<and>
            (\<exists>pre rest. evs =
               [Write job_id (Status Processing), Write job_id (Progress 10)] @ pre @
               [Print (''AI API error: '' @ str_exn e),
                Write job_id (Progress 30), Write job_id (Progress 50),
                Ffmpeg (transcode_cmd video_path output_format job_id)] @ rest) \<and>
            job_writes job_id evs =
              [Status Processing, Progress 10, Progress 30, Progress 50] @
              outcome_writes r fs job_id \<and>
            map_option status (map_of (jobs w') job_id) =
              Some (case failure of None \<Rightarrow> Completed | Some e' \<Rightarrow> Failed) \<and>
            map_option error (map_of (jobs w') job_id) =
              Some (case failure of None \<Rightarrow> error j | Some e' \<Rightarrow> Some (take 500 (str_exn e')))"
proof -
  note pv = process_video_present [OF assms(1,3), of prompt]
  note jw = process_video_job_writes [OF assms(1,3), of prompt]
  note fj = process_video_final_job [OF assms(1,3), of prompt]
  obtain pre where pre: "advisor_events env prompt
      (AList.update job_id (j\<lparr>status := Processing, progress := 10\<rparr>) (jobs w)) =
      pre @ [Print (''AI API error: '' @ str_exn e)]"
    using advisor_events_failure [OF assms(2)] by blast
  have tr: "\<exists>pre rest. events_since w (snd (process_video env job_id video_path prompt output_format w)) =
               [Write job_id (Status Processing), Write job_id (Progress 10)] @ pre @
               [Print (''AI API error: '' @ str_exn e),
                Write job_id (Progress 30), Write job_id (Progress 50),
                Ffmpeg (transcode_cmd video_path output_format job_id)] @ rest"
    by (rule exI [of _ pre],
        rule exI [of _ "map (Write job_id) (outcome_writes r fs job_id) @ cleanup_events video_path fs"])
       (simp add: pv pre)
  have st: "fst (process_video env job_id video_path prompt output_format w) = None"
    by (simp add: pv)
  from outcome_writes_cases [of r fs job_id] show ?thesis
    using tr st by (auto simp: Let_def jw fj)
qed

theorem advisor_failure_absorbed_witness:
  "map_of (jobs st_created) ''job-1'' = Some (new_job ''job-1'' 0) \<and>
   fst (call_qwen_api env_advisor_down ''make it square'' (Some (input_path_of ''job-1''))
          st_created) = Inl (OtherException ''timed out'') \<and>
   ffmpeg_run env_advisor_down (transcode_cmd (input_path_of ''job-1'') ''square'' ''job-1'')
       (files st_created) =
     (None, (files st_created)(output_path_of ''job-1'' \<mapsto> ''video'')) \<and>
   (let res = process_video env_advisor_down ''job-1'' (input_path_of ''job-1'')
                ''make it square'' ''square'' st_created;
        w' = snd res;
        evs = events_since st_created w';
        failure = transcode_failure None ((files st_created)(output_path_of ''job-1'' \<mapsto> ''video''))
                    (output_path_of ''job-1'')
    in fst res = None \<and>
       (\<exists>pre rest. evs =
          [Write ''job-1'' (Status Processing), Write ''job-1'' (Progress 10)] @ pre @
          [Print (''AI API error: '' @ str_exn (OtherException ''timed out'')),
           Write ''job-1'' (Progress 30), Write ''job-1'' (Progress 50),
           Ffmpeg (transcode_cmd (input_path_of ''job-1'') ''square'' ''job-1'')] @ rest) \<and>
       job_writes ''job-1'' evs =
         [Status Processing, Progress 10, Progress 30, Progress 50] @
         outcome_writes None ((files st_created)(output_path_of ''job-1'' \<mapsto> ''video'')) ''job-1'' \<and>
       map_option status (map_of (jobs w') ''job-1'') =
         Some (case failure of None \<Rightarrow> Completed | Some e' \<Rightarrow> Failed) \<and>
       map_option error (map_of (jobs w') ''job-1'') =
         Some (case failure of None \<Rightarrow> error (new_job ''job-1'' 0)
               | Some e' \<Rightarrow> Some (take 500 (str_exn e')))) \<and>
   transcode_failure None ((files st_created)(output_path_of ''job-1'' \<mapsto> ''video''))
     (output_path_of ''job-1'') = None"
proof -
  have h1: "map_of (jobs st_created) ''job-1'' = Some (new_job ''job-1'' 0)"
    by (rule st_created_job)
  have h2: "fst (call_qwen_api env_advisor_down ''make it square'' (Some (input_path_of ''job-1''))
          st_created) = Inl (OtherException ''timed out'')"
    by (simp add: call_qwen_api_def env_advisor_down_def env_ok_def)
  have h3: "ffmpeg_run env_advisor_down (transcode_cmd (input_path_of ''job-1'') ''square'' ''job-1'')
       (files st_created) =
     (None, (files st_created)(output_path_of ''job-1'' \<mapsto> ''video''))"
    by (simp add: env_advisor_down_def env_ok_def transcode_cmd_def)
  have h4: "transcode_failure None ((files st_created)(output_path_of ''job-1'' \<mapsto> ''video''))
     (output_path_of ''job-1'') = None"
    by (simp add: transcode_failure_def transcode_exn_def)
  from advisor_failure_absorbed [OF h1 h2 h3] h1 h2 h3 h4
  show ?thesis by blast
qed

section \<open>Failure of the transcode (C5)\<close>

text \<open>
  C5. For a job that is in the table: when ffmpeg raises an exception, or returns
  normally but the output file does not exist afterwards, the job ends with status
  failed and with the first 500 characters of the text of the caught exception as its
  error summary; the exception is \<^verbatim>\<open>RuntimeError("FFmpeg processing failed: ...")\<close>
  for an \<^verbatim>\<open>ffmpeg.Error\<close>, \<^verbatim>\<open>RuntimeError("Output file was not created")\<close> for the missing
  file, and the exception itself otherwise. The output handle keeps the value it had and
  status completed is never assigned.
\<close>

theorem transcode_failure_recorded:
  assumes "map_of (jobs w) job_id = Some j"
    and "ffmpeg_run env (transcode_cmd video_path output_format job_id) (files w) = (r, fs)"
    and "r \<noteq> None \<or> fs (output_path_of job_id) = None"
  shows "\<exists>e. transcode_failure r fs (output_path_of job_id) = Some e \<and>
           (\<forall>s. r = Some (FfmpegError s) \<longrightarrow> e = RuntimeError (''FFmpeg processing failed: '' @ s)) \<and>
           (r = None \<longrightarrow> e = RuntimeError ''Output file was not created'') \<and>
           (let w' = snd (process_video env job_id video_path prompt output_format w)
            in map_option status (map_of (jobs w') job_id) = Some Failed \<and>
               map_option error (map_of (jobs w') job_id) = Some (Some (take 500 (str_exn e))) \<and>
               length (take 500 (str_exn e)) \<le> 500 \<and>
               map_option output_url (map_of (jobs w') job_id) = Some (output_url j) \<and>
               Completed \<notin> set (status_writes job_id (events_since w w')))"
proof -
  note jw = process_video_job_writes [OF assms(1,2), of prompt]
  note fj = process_video_final_job [OF assms(1,2), of prompt]
  have "\<exists>e. transcode_failure r fs (output_path_of job_id) = Some e"
    using assms(3)
    by (cases r) (auto simp: transcode_failure_def transcode_exn_def split: exn.splits)
  then obtain e where e: "transcode_failure r fs (output_path_of job_id) = Some e" ..
  have c1: "\<forall>s. r = Some (FfmpegError s) \<longrightarrow> e = RuntimeError (''FFmpeg processing failed: '' @ s)"
    using e by (auto simp: transcode_failure_def transcode_exn_def)
  have c2: "r = None \<longrightarrow> e = RuntimeError ''Output file was not created''"
    using e by (auto simp: transcode_failure_def transcode_exn_def split: if_splits)
  from outcome_writes_cases [of r fs job_id] e c1 c2 show ?thesis
    by (auto simp: Let_def jw fj status_writes_def)
qed

theorem transcode_failure_recorded_witness:
  "map_of (jobs st_created) ''job-1'' = Some (new_job ''job-1'' 0) \<and>
   ffmpeg_run env_ffmpeg_fails (transcode_cmd (input_path_of ''job-1'') ''square'' ''job-1'')
       (files st_created) =
     (Some (FfmpegError ''invalid data''), files st_created) \<and>
   Some (FfmpegError ''invalid data'') \<noteq> None \<and>
   (\<exists>e. transcode_failure (Some (FfmpegError ''invalid data'')) (files st_created)
           (output_path_of ''job-1'') = Some e \<and>
        (\<forall>s. Some (FfmpegError ''invalid data'') = Some (FfmpegError s) \<longrightarrow>
             e = RuntimeError (''FFmpeg processing failed: '' @ s)) \<and>
        (Some (FfmpegError ''invalid data'') = None \<longrightarrow>
             e = RuntimeError ''Output file was not created'') \<and>
        (let w' = snd (process_video env_ffmpeg_fails ''job-1'' (input_path_of ''job-1'')
                         ''make it square'' ''square'' st_created)
         in map_option status (map_of (jobs w') ''job-1'') = Some Failed \<and>
            map_option error (map_of (jobs w') ''job-1'') = Some (Some (take 500 (str_exn e))) \<and>
            length (take 500 (str_exn e)) \<le> 500 \<and>
            map_option output_url (map_of (jobs w') ''job-1'') =
              Some (output_url (new_job ''job-1'' 0)) \<and>
            Completed \<notin> set (status_writes ''job-1'' (events_since st_created w'))))"
proof -
  have h1: "map_of (jobs st_created) ''job-1'' = Some (new_job ''job-1'' 0)"
    by (rule st_created_job)
  have h2: "ffmpeg_run env_ffmpeg_fails (transcode_cmd (input_path_of ''job-1'') ''square'' ''job-1'')
       (files st_created) =
     (Some (FfmpegError ''invalid data''), files st_created)"
    by (simp add: env_ffmpeg_fails_def env_ok_def)
  have h3: "Some (FfmpegError ''invalid data'') \<noteq> None"
    by simp
  have h3': "Some (FfmpegError ''invalid data'') \<noteq> None \<or>
             files st_created (output_path_of ''job-1'') = None"
    by simp
  from transcode_failure_recorded [OF h1 h2 h3', where prompt = "''make it square''"] h1 h2 h3
  show ?thesis by blast
qed

section \<open>Deletion of the input file (C9)\<close>

lemma process_video_try_remove_error:
  "process_video_try (env\<lparr>remove_error := f\<rparr>) k vp prompt fmt w =
   process_video_try env k vp prompt fmt w"
proof -
  have a: "call_qwen_api (env\<lparr>remove_error := f\<rparr>) = call_qwen_api env"
    by (intro ext) (simp add: call_qwen_api_def split: option.splits)
  have b: "run_ffmpeg (env\<lparr>remove_error := f\<rparr>) = run_ffmpeg env"
    by (intro ext) (simp add: run_ffmpeg_def)
  show ?thesis
    by (simp add: process_video_try_def process_video_body_def instruction_lookup_def
        transcode_def a b)
qed

text \<open>
  C9. \<open>body\<close> is the outer \<^verbatim>\<open>try\<close> of \<^verbatim>\<open>process_video\<close> with its handler (lines 147 to 208);
  it ends without an exception (job completed or failed) or with one (the job is not in
  the table and the handler raises in its turn). However it ends, \<^verbatim>\<open>process_video\<close> then
  calls \<^verbatim>\<open>os.remove\<close> on the input file if the file exists, as its last effect, and does
  nothing else; the file is gone when the removal does not fail; and the exception that
  leaves \<^verbatim>\<open>process_video\<close> and the job table are those of \<open>body\<close>, the same whether the
  removal succeeds or fails in any way \<open>f\<close>.
\<close>

theorem input_cleanup_on_every_exit:
  "let body = process_video_try env job_id video_path prompt output_format w;
       res = process_video env job_id video_path prompt output_format w
   in fst res = fst body \<and>
      jobs (snd res) = jobs (snd body) \<and>
      events_since (snd body) (snd res) =
        (if files (snd body) video_path = None then [] else [OsRemove video_path]) \<and>
      (remove_error env video_path = None \<longrightarrow> files (snd res) video_path = None) \<and>
      (\<forall>f. fst (process_video (env\<lparr>remove_error := f\<rparr>) job_id video_path prompt output_format w)
              = fst res \<and>
           jobs (snd (process_video (env\<lparr>remove_error := f\<rparr>) job_id video_path prompt
                        output_format w))
              = jobs (snd res))"
  by (simp add: Let_def process_video_split process_video_finally_result
      process_video_try_remove_error cleanup_events_def cleanup_files_def)

theorem input_cleanup_on_every_exit_witness:
  "(let body = process_video_try env_ok ''job-1'' (input_path_of ''job-1'') ''make it square''
                 ''square'' st_orphan;
        res = process_video env_ok ''job-1'' (input_path_of ''job-1'') ''make it square''
                ''square'' st_orphan
    in fst res = fst body \<and>
       jobs (snd res) = jobs (snd body) \<and>
       events_since (snd body) (snd res) =
         (if files (snd body) (input_path_of ''job-1'') = None then []
          else [OsRemove (input_path_of ''job-1'')]) \<and>
       (remove_error env_ok (input_path_of ''job-1'') = None \<longrightarrow>
          files (snd res) (input_path_of ''job-1'') = None) \<and>
       (\<forall>f. fst (process_video (env_ok\<lparr>remove_error := f\<rparr>) ''job-1'' (input_path_of ''job-1'')
                   ''make it square'' ''square'' st_orphan)
               = fst res \<and>
            jobs (snd (process_video (env_ok\<lparr>remove_error := f\<rparr>) ''job-1''
                         (input_path_of ''job-1'') ''make it square'' ''square'' st_orphan))
               = jobs (snd res))) \<and>
   fst (process_video env_ok ''job-1'' (input_path_of ''job-1'') ''make it square'' ''square''
          st_orphan) = Some (KeyError ''job-1'') \<and>
   files st_orphan (input_path_of ''job-1'') = Some ''abcde'' \<and>
   remove_error env_ok (input_path_of ''job-1'') = None"
proof -
  have a: "fst (process_video env_ok ''job-1'' (input_path_of ''job-1'') ''make it square''
             ''square'' st_orphan) = Some (KeyError ''job-1'')"
    by (simp add: process_video_absent st_orphan_def)
  have b: "files st_orphan (input_path_of ''job-1'') = Some ''abcde''"
    by (simp add: st_orphan_def)
  have c: "remove_error env_ok (input_path_of ''job-1'') = None"
    by (simp add: env_ok_def)
  from input_cleanup_on_every_exit [of env_ok "''job-1''" "input_path_of ''job-1''"
      "''make it square''" "''square''" st_orphan] a b c
  show ?thesis by blast
qed

section \<open>The reply of the AI provider (C10)\<close>

text \<open>
  C10. Two runs of \<^verbatim>\<open>process_video\<close> with the same arguments, from the same state and
  in the same environment but for the reply of the AI provider, whose call succeeds in
  both with the texts \<open>r1\<close> and \<open>r2\<close>: the runs raise the same, leave the same job table
  (status, progress, output handle, error summary), the same file system (the output
  file) and the same trace (the assignments in order, the ffmpeg command). The reply is
  bound to a variable that nothing reads.
\<close>

theorem advisor_response_ignored:
  assumes "fst (call_qwen_api (env\<lparr>chat_completion := f1\<rparr>) prompt (Some video_path) s1) = Inr r1"
    and "fst (call_qwen_api (env\<lparr>chat_completion := f2\<rparr>) prompt (Some video_path) s2) = Inr r2"
  shows "process_video (env\<lparr>chat_completion := f1\<rparr>) job_id video_path prompt output_format w =
         process_video (env\<lparr>chat_completion := f2\<rparr>) job_id video_path prompt output_format w"
proof -
  from assms have k: "ollama_api_key env \<noteq> None" "ollama_api_key env \<noteq> Some []"
    and f: "f1 prompt = Inr r1" "f2 prompt = Inr r2"
    by (auto simp: call_qwen_api_def split: option.splits if_splits)
  have a: "await_ai_response (call_qwen_api (env\<lparr>chat_completion := f1\<rparr>) prompt (Some video_path)) =
           await_ai_response (call_qwen_api (env\<lparr>chat_completion := f2\<rparr>) prompt (Some video_path))"
    using k f by (intro ext) (auto simp: await_ai_response_def call_qwen_api_def split: option.splits)
  have b: "run_ffmpeg (env\<lparr>chat_completion := f1\<rparr>) = run_ffmpeg (env\<lparr>chat_completion := f2\<rparr>)"
    by (intro ext) (simp add: run_ffmpeg_def)
  have c: "process_video_finally (env\<lparr>chat_completion := f1\<rparr>) video_path =
           process_video_finally (env\<lparr>chat_completion := f2\<rparr>) video_path"
    by (intro ext) (simp add: process_video_finally_result cleanup_files_def)
  show ?thesis
    by (simp add: process_video_def process_video_try_def process_video_body_def
        instruction_lookup_def transcode_def a b c)
qed

theorem advisor_response_ignored_witness:
  "fst (call_qwen_api (env_ok\<lparr>chat_completion := (\<lambda>p. Inr ''cut'')\<rparr>) ''make it square''
          (Some (input_path_of ''job-1'')) st_created) = Inr ''cut'' \<and>
   fst (call_qwen_api (env_ok\<lparr>chat_completion := (\<lambda>p. Inr ''trim'')\<rparr>) ''make it square''
          (Some (input_path_of ''job-1'')) st_created) = Inr ''trim'' \<and>
   ''cut'' \<noteq> ''trim'' \<and>
   process_video (env_ok\<lparr>chat_completion := (\<lambda>p. Inr ''cut'')\<rparr>) ''job-1''
       (input_path_of ''job-1'') ''make it square'' ''square'' st_created =
   process_video (env_ok\<lparr>chat_completion := (\<lambda>p. Inr ''trim'')\<rparr>) ''job-1''
       (input_path_of ''job-1'') ''make it square'' ''square'' st_created"
proof -
  have h1: "fst (call_qwen_api (env_ok\<lparr>chat_completion := (\<lambda>p. Inr ''cut'')\<rparr>) ''make it square''
          (Some (input_path_of ''job-1'')) st_created) = Inr ''cut''"
    by (simp add: call_qwen_api_def env_ok_def)
  have h2: "fst (call_qwen_api (env_ok\<lparr>chat_completion := (\<lambda>p. Inr ''trim'')\<rparr>) ''make it square''
          (Some (input_path_of ''job-1'')) st_created) = Inr ''trim''"
    by (simp add: call_qwen_api_def env_ok_def)
  have h3: "''cut'' \<noteq> ''trim''"
    by simp
  from advisor_response_ignored [OF h1 h2, of "''job-1''" "''square''" st_created] h1 h2 h3
  show ?thesis by blast
qed

section \<open>The sweep of old jobs (C6)\<close>










section \<open>The prompt handed to the pipeline (C7)\<close>

lemma strip_subset: "set (strip s) \<subseteq> set s"
proof
  fix x
  assume "x \<in> set (strip s)"
  then have "x \<in> set (dropWhile py_isspace (rev (dropWhile py_isspace s)))"
    by (simp add: strip_def)
  then have "x \<in> set (rev (dropWhile py_isspace s))"
    by (rule set_dropWhileD)
  then have "x \<in> set (dropWhile py_isspace s)"
    by simp
  then show "x \<in> set s"
    by (rule set_dropWhileD)
qed

lemma length_strip: "length (strip s) \<le> length s"
  unfolding strip_def
  by (metis length_dropWhile_le length_rev order_trans)

lemma edit_video_sanitize_bounds:
  "length (edit_video_sanitize p) \<le> 2000"
  "CHR ''<'' \<notin> set (edit_video_sanitize p)"
  "CHR ''>'' \<notin> set (edit_video_sanitize p)"
proof -
  show "length (edit_video_sanitize p) \<le> 2000"
    unfolding edit_video_sanitize_def
    by (rule order_trans [OF length_strip]) simp
  have "set (edit_video_sanitize p) \<subseteq> set (remove_angle_brackets p)"
    unfolding edit_video_sanitize_def
    using strip_subset set_take_subset by fastforce
  then show "CHR ''<'' \<notin> set (edit_video_sanitize p)" "CHR ''>'' \<notin> set (edit_video_sanitize p)"
    by (auto simp: remove_angle_brackets_def)
qed

lemma sanitize_prompt_example: "sanitize_prompt ''javascript:alert(1)'' = ''alert(1)''"
  by (simp add: sanitize_prompt_def remove_angle_brackets_def matches_javascript_def
      lower_ascii_def strip_def py_isspace_def)

lemma edit_video_sanitize_example:
  "edit_video_sanitize ''javascript:alert(1)'' = ''javascript:alert(1)''"
  by (simp add: edit_video_sanitize_def remove_angle_brackets_def strip_def py_isspace_def)

text \<open>
  C7. The prompt that \<^verbatim>\<open>edit_video\<close> hands to \<^verbatim>\<open>process_video\<close> has no angle bracket and
  at most 2000 characters (\<open>edit_video_sanitize_bounds\<close>), but line 281 does not remove
  \<^verbatim>\<open>javascript:\<close>, which only \<^verbatim>\<open>VideoEditRequest.sanitize_prompt\<close> does
  (\<open>sanitize_prompt_example\<close>): the submission of the prompt \<^verbatim>\<open>javascript:alert(1)\<close>
  schedules \<^verbatim>\<open>process_video\<close> with this very prompt.
\<close>

theorem edit_video_keeps_javascript:
  "fst (edit_video env_ok ''job-1'' 0 ''javascript:alert(1)'' ''tiktok'' (Some upload_small)
          st_empty) =
     Inr \<lparr>resp_id = ''job-1'', resp_status = ''pending'',
          background_tasks =
            [ProcessVideo ''job-1'' (input_path_of ''job-1'') ''javascript:alert(1)'' ''tiktok'',
             CleanupOldJobs]\<rparr>"
  by (simp add: edit_video_def validate_video_file_def upload_small_def ALLOWED_VIDEO_TYPES_def
      save_upload_def env_ok_def st_empty_def f_write_def MAX_FILE_SIZE_def
      FORMAT_CONFIGS_def edit_video_sanitize_example Let_def)

section \<open>Uploads above the size cap (C8)\<close>

lemma read_chunks_overflow:
  assumes "write_error env p = None" and "[] \<notin> set chunks"
    and "files w p \<noteq> None" and "total_size \<le> MAX_FILE_SIZE"
    and "MAX_FILE_SIZE < total_size + sum_list (map length chunks)"
  shows "\<exists>w'. read_chunks env p (map Inr chunks @ rest) total_size w =
           ((case remove_error env p of
               None \<Rightarrow> Some (Inr (HTTPException 400 ''File too large. Maximum size is 500MB''))
             | Some e \<Rightarrow> Some (Inl e)), w') \<and>
           jobs w' = jobs w \<and>
           (files w' p = None \<longleftrightarrow> remove_error env p = None)"
  using assms
proof (induction chunks arbitrary: total_size w)
  case Nil
  then show ?case by simp
next
  case (Cons c cs)
  from Cons.prems(2) have c: "c \<noteq> []" and cs: "[] \<notin> set cs" by auto
  from Cons.prems(3) obtain content where content: "files w p = Some content" by auto
  show ?case
  proof (cases "MAX_FILE_SIZE < total_size + length c")
    case True
    with c content show ?thesis
      by (cases "remove_error env p")
         (simp_all add: Let_def os_remove_def emit_def)
  next
    case False
    let ?w = "w\<lparr>files := (files w)(p \<mapsto> content @ c)\<rparr>"
    have "\<exists>w'. read_chunks env p (map Inr cs @ rest) (total_size + length c) ?w =
           ((case remove_error env p of
               None \<Rightarrow> Some (Inr (HTTPException 400 ''File too large. Maximum size is 500MB''))
             | Some e \<Rightarrow> Some (Inl e)), w') \<and>
           jobs w' = jobs ?w \<and>
           (files w' p = None \<longleftrightarrow> remove_error env p = None)"
      using Cons.prems(1,5) cs False
      by (intro Cons.IH) (simp_all add: add.assoc)
    with False c content Cons.prems(1) show ?thesis
      by (simp add: Let_def f_write_def)
  qed
qed

lemma edit_video_oversize:
  assumes "validate_video_file env video = None"
    and "open_error env (input_path_of uuid4) = None"
    and "write_error env (input_path_of uuid4) = None"
    and "reads video = map Inr chunks @ rest" and "[] \<notin> set chunks"
    and "MAX_FILE_SIZE < sum_list (map length chunks)"
  shows "jobs (snd (edit_video env uuid4 now prompt format (Some video) w)) = jobs w"
    and "remove_error env (input_path_of uuid4) = None \<Longrightarrow>
           fst (edit_video env uuid4 now prompt format (Some video) w) =
             Inl (HTTPException 400 ''File too large. Maximum size is 500MB'') \<and>
           files (snd (edit_video env uuid4 now prompt format (Some video) w)) (input_path_of uuid4) = None"
    and "remove_error env (input_path_of uuid4) = Some e \<Longrightarrow>
           fst (edit_video env uuid4 now prompt format (Some video) w) =
             Inl (HTTPException 500 ''Failed to save video file'') \<and>
           files (snd (edit_video env uuid4 now prompt format (Some video) w)) (input_path_of uuid4) \<noteq> None"
proof -
  let ?p = "input_path_of uuid4"
  let ?w = "w\<lparr>files := (files w)(?p \<mapsto> [])\<rparr>"
  from read_chunks_overflow [of env ?p chunks ?w 0 rest] assms(3,5,6)
  obtain w' where w':
    "read_chunks env ?p (reads video) 0 ?w =
       ((case remove_error env ?p of
           None \<Rightarrow> Some (Inr (HTTPException 400 ''File too large. Maximum size is 500MB''))
         | Some e \<Rightarrow> Some (Inl e)), w')"
    "jobs w' = jobs w" "files w' ?p = None \<longleftrightarrow> remove_error env ?p = None"
    by (auto simp: assms(4))
  show "jobs (snd (edit_video env uuid4 now prompt format (Some video) w)) = jobs w"
    using assms(1,2) w'
    by (cases "remove_error env ?p") (simp_all add: edit_video_def save_upload_def Let_def)
  show "fst (edit_video env uuid4 now prompt format (Some video) w) =
             Inl (HTTPException 400 ''File too large. Maximum size is 500MB'') \<and>
           files (snd (edit_video env uuid4 now prompt format (Some video) w)) ?p = None"
    if "remove_error env ?p = None"
    using assms(1,2) w' that
    by (simp add: edit_video_def save_upload_def Let_def)
  show "fst (edit_video env uuid4 now prompt format (Some video) w) =
             Inl (HTTPException 500 ''Failed to save video file'') \<and>
           files (snd (edit_video env uuid4 now prompt format (Some video) w)) ?p \<noteq> None"
    if "remove_error env ?p = Some e"
    using assms(1,2) w' that
    by (simp add: edit_video_def save_upload_def Let_def)
qed

lemma upload_large_facts:
  "validate_video_file env upload_large = None"
  "reads upload_large = map Inr (replicate 64001 (replicate 8192 (CHR ''a''))) @ []"
  "[] \<notin> set (replicate 64001 (replicate 8192 (CHR ''a'')))"
  "MAX_FILE_SIZE < sum_list (map length (replicate 64001 (replicate 8192 (CHR ''a''))))"
  by (simp_all add: upload_large_def validate_video_file_def ALLOWED_VIDEO_TYPES_def
      MAX_FILE_SIZE_def sum_list_replicate)

lemma os_remove_jobs: "jobs (snd (os_remove env p w)) = jobs w"
  by (simp add: os_remove_def emit_def Let_def split: option.splits)

lemma f_write_jobs: "jobs (snd (f_write env p chunk w)) = jobs w"
  by (simp add: f_write_def split: option.splits)

lemma read_chunks_jobs: "jobs (snd (read_chunks env p rs n w)) = jobs w"
proof (induction env p rs n w rule: read_chunks.induct)
  case (1 env video_path total_size w)
  then show ?case by simp
next
  case (2 env video_path r rs total_size w)
  show ?case
  proof (cases r)
    case (Inl e)
    then show ?thesis by simp
  next
    case (Inr chunk)
    show ?thesis
    proof (cases "chunk = []")
      case True
      with Inr show ?thesis by simp
    next
      case False
      show ?thesis
      proof (cases "MAX_FILE_SIZE < total_size + length chunk")
        case True
        with Inr False os_remove_jobs [of env video_path w] show ?thesis
          by (auto simp: Let_def split: prod.splits option.splits)
      next
        case gt: False
        obtain r' w' where fw: "f_write env video_path chunk w = (r', w')"
          by (cases "f_write env video_path chunk w")
        with f_write_jobs [of env video_path chunk w] have jw: "jobs w' = jobs w"
          by simp
        show ?thesis
        proof (cases r')
          case None
          with 2 [OF Inr False refl gt fw [symmetric, unfolded None]] Inr False gt fw jw
          show ?thesis by (simp add: Let_def)
        next
          case (Some e)
          with Inr False gt fw jw show ?thesis by (simp add: Let_def)
        qed
      qed
    qed
  qed
qed

lemma save_upload_jobs: "jobs (snd (save_upload env p video w)) = jobs w"
proof (cases "open_error env p")
  case None
  with read_chunks_jobs [of env p "reads video" 0 "w\<lparr>files := (files w)(p \<mapsto> [])\<rparr>"]
  show ?thesis
    by (auto simp: save_upload_def split: prod.splits option.splits sum.splits)
next
  case (Some e)
  then show ?thesis by (simp add: save_upload_def)
qed

lemma save_upload_jobs':
  "save_upload env p video w = (r, w') \<Longrightarrow> jobs w' = jobs w"
  using save_upload_jobs [of env p video w] by simp

lemma edit_video_rejected_jobs_unchanged:
  assumes "fst (edit_video env uuid4 now prompt format video_opt w) = Inl h"
  shows "jobs (snd (edit_video env uuid4 now prompt format video_opt w)) = jobs w"
  using assms
  by (auto simp: edit_video_def Let_def split: option.splits prod.splits
      dest: save_upload_jobs')

text \<open>
  C8, as the code has it. A submission with an allowed content type whose file is
  opened and whose chunks are read and written without error until their accumulated
  size exceeds \<open>MAX_FILE_SIZE\<close>: the job table after the handler is the one before the
  submission, and no job record is created. When the \<^verbatim>\<open>os.remove\<close> of line 269 succeeds,
  the handler answers with \<^verbatim>\<open>HTTPException\<close> 400 and the input file does not exist
  afterwards. When that \<^verbatim>\<open>os.remove\<close> raises, the exception is caught at line 277, the
  handler answers with \<^verbatim>\<open>HTTPException\<close> 500 and the partial input file stays. (Whatever
  the reason of a rejection, the job table is unchanged:
  \<open>edit_video_rejected_jobs_unchanged\<close>.)
\<close>

theorem oversize_upload_rejected:
  assumes "validate_video_file env video = None"
    and "open_error env (input_path_of uuid4) = None"
    and "write_error env (input_path_of uuid4) = None"
    and "reads video = map Inr chunks @ rest" and "[] \<notin> set chunks"
    and "MAX_FILE_SIZE < sum_list (map length chunks)"
  shows "let res = edit_video env uuid4 now prompt format (Some video) w;
             p = input_path_of uuid4
         in jobs (snd res) = jobs w \<and>
            (case remove_error env p of
               None \<Rightarrow>
                 fst res = Inl (HTTPException 400 ''File too large. Maximum size is 500MB'') \<and>
                 files (snd res) p = None
             | Some e \<Rightarrow>
                 fst res = Inl (HTTPException 500 ''Failed to save video file'') \<and>
                 files (snd res) p \<noteq> None)"
  using edit_video_oversize [OF assms]
  by (simp add: Let_def split: option.splits)

theorem oversize_upload_rejected_witness:
  "validate_video_file env_ok upload_large = None \<and>
   open_error env_ok (input_path_of ''job-1'') = None \<and>
   write_error env_ok (input_path_of ''job-1'') = None \<and>
   reads upload_large = map Inr (replicate 64001 (replicate 8192 (CHR ''a''))) @ [] \<and>
   [] \<notin> set (replicate 64001 (replicate 8192 (CHR ''a''))) \<and>
   MAX_FILE_SIZE < sum_list (map length (replicate 64001 (replicate 8192 (CHR ''a'')))) \<and>
   (let res = edit_video env_ok ''job-1'' 0 ''make it square'' ''square'' (Some upload_large)
                st_empty;
        p = input_path_of ''job-1''
    in jobs (snd res) = jobs st_empty \<and>
       (case remove_error env_ok p of
          None \<Rightarrow>
            fst res = Inl (HTTPException 400 ''File too large. Maximum size is 500MB'') \<and>
            files (snd res) p = None
        | Some e \<Rightarrow>
            fst res = Inl (HTTPException 500 ''Failed to save video file'') \<and>
            files (snd res) p \<noteq> None)) \<and>
   remove_error env_ok (input_path_of ''job-1'') = None"
proof -
  have e: "open_error env_ok (input_path_of ''job-1'') = None"
    "write_error env_ok (input_path_of ''job-1'') = None"
    and r: "remove_error env_ok (input_path_of ''job-1'') = None"
    by (simp_all add: env_ok_def)
  from oversize_upload_rejected [OF upload_large_facts(1) e upload_large_facts(2,3,4),
      where now = 0 and prompt = "''make it square''" and format = "''square''"
        and w = st_empty]
    upload_large_facts(1) [of env_ok] upload_large_facts(2,3,4) e r
  show ?thesis by blast
qed

text \<open>
  The claim as stated fails: the upload exceeds the cap, the removal of the partial
  input file raises, and the handler answers with status 500, a server error, while
  the partial file stays on disk.
\<close>

theorem oversize_upload_remove_fails:
  "validate_video_file env_remove_fails upload_large = None \<and>
   MAX_FILE_SIZE < sum_list (map length (replicate 64001 (replicate 8192 (CHR ''a'')))) \<and>
   remove_error env_remove_fails (input_path_of ''job-1'') =
     Some (OtherException ''Permission denied'') \<and>
   fst (edit_video env_remove_fails ''job-1'' 0 ''make it square'' ''square''
          (Some upload_large) st_empty) =
     Inl (HTTPException 500 ''Failed to save video file'') \<and>
   files (snd (edit_video env_remove_fails ''job-1'' 0 ''make it square'' ''square''
                 (Some upload_large) st_empty)) (input_path_of ''job-1'') \<noteq> None"
proof -
  have e: "open_error env_remove_fails (input_path_of ''job-1'') = None"
    "write_error env_remove_fails (input_path_of ''job-1'') = None"
    and r: "remove_error env_remove_fails (input_path_of ''job-1'') =
      Some (OtherException ''Permission denied'')"
    by (simp_all add: env_remove_fails_def env_ok_def)
  from edit_video_oversize(3) [OF upload_large_facts(1) e upload_large_facts(2,3,4) r,
      where now = 0 and prompt = "''make it square''" and format = "''square''"
        and w = st_empty]
    upload_large_facts(1) [of env_remove_fails] upload_large_facts(2,3,4) r
  show ?thesis by blast
qed

end
